theory Spec2Isabelle
  imports Complex_Main
begin

section \<open>Requests, responses and JSON values\<close>

text \<open>
  The admin middleware reads \<^verbatim>\<open>request.body.role\<close> and \<^verbatim>\<open>request.body.account_role\<close>
  as untyped JavaScript values. A JSON body can carry an absent field (\<^verbatim>\<open>undefined\<close>),
  \<^verbatim>\<open>null\<close>, a boolean, a finite number, a string, or an object/array. Finite numbers are
  modelled as rationals (every finite double is one); \<^verbatim>\<open>NaN\<close> and the infinities cannot
  occur in a JSON body.
\<close>

datatype jsval = JUndefined | JNull | JBool bool | JNum rat | JStr string | JObject

text \<open>JavaScript truthiness, as used by the \<^verbatim>\<open>||\<close> operator.\<close>

fun truthy :: "jsval \<Rightarrow> bool" where
  "truthy JUndefined = False"
| "truthy JNull = False"
| "truthy (JBool b) = b"
| "truthy (JNum x) = (x \<noteq> 0)"
| "truthy (JStr s) = (s \<noteq> [])"
| "truthy JObject = True"

text \<open>\<^verbatim>\<open>a || b\<close>: the left operand when it is truthy, the right operand otherwise.\<close>

definition js_or :: "jsval \<Rightarrow> jsval \<Rightarrow> jsval" where
  "js_or a b = (if truthy a then a else b)"

text \<open>\<^verbatim>\<open>Number.isInteger\<close>: false on everything that is not a number.\<close>

fun Number_isInteger :: "jsval \<Rightarrow> bool" where
  "Number_isInteger (JNum x) = (of_int \<lfloor>x\<rfloor> = x)"
| "Number_isInteger _ = False"

text \<open>The decoded token payload \<^verbatim>\<open>request.claims\<close> (\<^verbatim>\<open>id\<close>, \<^verbatim>\<open>role\<close>).\<close>

record jwt_claims =
  claim_id :: int
  claim_role :: int

text \<open>
  The request body. \<^verbatim>\<open>role\<close> and \<^verbatim>\<open>account_role\<close> stay untyped because
  \<^verbatim>\<open>canManageRole\<close> inspects them itself; the other fields are the ones the controllers
  destructure, \<open>None\<close> standing for \<^verbatim>\<open>undefined\<close>.
\<close>

record body =
  body_role :: jsval
  body_account_role :: jsval
  body_firstname :: "string option"
  body_lastname :: "string option"
  body_username :: "string option"
  body_email :: "string option"
  body_password :: "string option"
  body_phone :: "string option"
  body_account_status :: "string option"
  body_email_verified :: "bool option"
  body_phone_verified :: "bool option"

text \<open>
  \<^verbatim>\<open>params_id\<close> is \<^verbatim>\<open>parseInt(request.params.id)\<close>; every route that uses it runs
  \<^verbatim>\<open>validateUserIdParam\<close> (\<^verbatim>\<open>isInt().toInt()\<close>) first, so it is an integer.
  \<^verbatim>\<open>req_targetUserRole\<close> is the ad-hoc field \<^verbatim>\<open>targetUserRole\<close> that
  \<^verbatim>\<open>canModifyTargetUser\<close> attaches to the request.
\<close>

record request =
  claims :: "jwt_claims option"
  params_id :: int
  req_body :: body
  req_targetUserRole :: "int option"

record response =
  status :: nat
  success :: bool
  message :: string

definition json :: "nat \<Rightarrow> bool \<Rightarrow> string \<Rightarrow> response" where
  "json st ok msg = \<lparr>status = st, success = ok, message = msg\<rparr>"

text \<open>A middleware either answers the request or calls \<^verbatim>\<open>next()\<close>.\<close>

datatype mw_result = Next request | Respond response

type_synonym middleware = "request \<Rightarrow> mw_result"

text \<open>Express runs the handlers of a route in order; the first one that answers ends the chain.\<close>

fun run_chain :: "middleware list \<Rightarrow> request \<Rightarrow> mw_result" where
  "run_chain [] req = Next req"
| "run_chain (m # ms) req =
     (case m req of Respond r \<Rightarrow> Respond r | Next req' \<Rightarrow> run_chain ms req')"

section \<open>The store\<close>

record account =
  account_id :: int
  firstname :: string
  lastname :: string
  username :: string
  email :: string
  email_verified :: bool
  phone :: "string option"
  phone_verified :: bool
  account_role :: int
  account_status :: string
  created_at :: nat
  updated_at :: nat

record credential =
  cred_account_id :: int
  salted_hash :: string
  salt :: string

record db =
  accounts :: "account list"
  credentials :: "credential list"

text \<open>
  What a handler cannot control: the clock (\<^verbatim>\<open>CURRENT_TIMESTAMP\<close>), whether the store
  raises on the role lookup of \<^verbatim>\<open>canModifyTargetUser\<close>, whether it raises on the k-th
  statement a controller issues (counted from 0 in source order), and
  \<^verbatim>\<open>generateSaltedHash\<close> of \<^verbatim>\<open>@utilities\<close>, which returns a salt and a hash or throws
  (\<open>None\<close>). The count covers \<^verbatim>\<open>BEGIN\<close>, the data statements and \<^verbatim>\<open>COMMIT\<close>;
  \<^verbatim>\<open>ROLLBACK\<close> is taken not to raise.
\<close>

record env =
  now :: nat
  lookup_fault :: bool
  store_fault :: "nat \<Rightarrow> bool"
  generateSaltedHash :: "string \<Rightarrow> (string \<times> string) option"

section \<open>Role hierarchy middleware\<close>

text \<open>
  Modelled from the spec: the \<^verbatim>\<open>UserRole\<close> enum of \<^verbatim>\<open>@models\<close> is not among the
  sources. Roles are 1 = User, 2 = Moderator, 3 = Admin, 4 = SuperAdmin, 5 = Owner; the
  route comments say the same (``Moderator role (2+)'', ``Admin role (3+)'').
\<close>

definition ROLES_MODERATOR :: int where
  "ROLES_MODERATOR = 2"

definition ROLES_ADMIN :: int where
  "ROLES_ADMIN = 3"

definition requireRole :: "int \<Rightarrow> middleware" where
  "requireRole minRole req =
     (case claims req of
        None \<Rightarrow> Respond (json 401 False ''Authentication required'')
      | Some c \<Rightarrow>
          if claim_role c < minRole
          then Respond (json 403 False ''Insufficient permissions'')
          else Next req)"

definition canManageRole :: middleware where
  "canManageRole req =
     (case claims req of
        None \<Rightarrow> Respond (json 401 False ''Authentication required'')
      | Some c \<Rightarrow>
          (let targetRole = js_or (body_role (req_body req)) (body_account_role (req_body req))
           in if targetRole = JUndefined then Next req
              else
                (case targetRole of
                   JNum x \<Rightarrow>
                     if \<not> Number_isInteger (JNum x) \<or> x < 1 \<or> x > 5
                     then Respond (json 400 False
                            ''Invalid role value. Role must be an integer between 1 and 5'')
                     else if x > of_int (claim_role c)
                     then Respond (json 403 False ''Cannot assign role higher than your own'')
                     else Next req
                 | _ \<Rightarrow>
                     Respond (json 400 False
                       ''Invalid role value. Role must be an integer between 1 and 5''))))"

definition preventSelfModification :: middleware where
  "preventSelfModification req =
     (case claims req of
        None \<Rightarrow> Respond (json 401 False ''Authentication required'')
      | Some c \<Rightarrow>
          (let targetUserId = params_id req
           in if targetUserId = claim_id c
              then Respond (json 403 False
                     ''Cannot modify your own account through admin endpoints. Use the user profile endpoints to modify your own account'')
              else Next req))"

text \<open>\<^verbatim>\<open>SELECT account_role FROM account WHERE account_id = $1\<close>\<close>

definition select_account_role :: "db \<Rightarrow> int \<Rightarrow> int list" where
  "select_account_role d uid = map account_role (filter (\<lambda>a. account_id a = uid) (accounts d))"

definition canModifyTargetUser :: "env \<Rightarrow> db \<Rightarrow> middleware" where
  "canModifyTargetUser e d req =
     (case claims req of
        None \<Rightarrow> Respond (json 401 False ''Authentication required'')
      | Some c \<Rightarrow>
          (let targetUserId = params_id req
           in if lookup_fault e
              then Respond (json 500 False ''Failed to verify permissions'')
              else
                (case select_account_role d targetUserId of
                   [] \<Rightarrow> Next req
                 | targetUserRole # _ \<Rightarrow>
                     if targetUserRole > claim_role c
                     then Respond (json 403 False
                            ''Cannot modify user with higher role than yours'')
                     else Next (req\<lparr>req_targetUserRole := Some targetUserRole\<rparr>))))"

text \<open>
  The repository holds two versions of \<^verbatim>\<open>requireAdminForUserModification\<close>. The one
  in \<^verbatim>\<open>src/core/middleware/adminAuth.ts\<close> has three steps.
\<close>

definition requireAdminForUserModification_adminAuth_ts :: "middleware list" where
  "requireAdminForUserModification_adminAuth_ts =
     [requireRole ROLES_MODERATOR, preventSelfModification, canManageRole]"

text \<open>The other version (\<^verbatim>\<open>unnamed/part_001\<close>) adds the lookup of the target's stored role.\<close>

definition requireAdminForUserModification_part_001 :: "env \<Rightarrow> db \<Rightarrow> middleware list" where
  "requireAdminForUserModification_part_001 e d =
     [requireRole ROLES_MODERATOR, preventSelfModification, canModifyTargetUser e d,
      canManageRole]"

section \<open>Store statements\<close>

text \<open>
  Modelled from the spec: the SQL schema is not among the sources. The README lists
  \<^verbatim>\<open>Username (unique), Email (unique), Phone (unique)\<close> for the Account table and the
  spec says the same, so a statement that would store a second row with the same username,
  email or (non-null) phone raises. A statement that raises changes nothing.
\<close>

datatype pg_error = UniqueViolation | NotNullViolation | InvalidValue

text \<open>The store assigns a new account an identifier that no stored account has.\<close>

definition fresh_account_id :: "account list \<Rightarrow> int" where
  "fresh_account_id accs = fold max (map account_id accs) 0 + 1"

text \<open>
  A statement parameter for an integer column. The validation chains of the routes
  convert \<^verbatim>\<open>role\<close> with \<^verbatim>\<open>toInt()\<close> before a controller reads it; any value that is not
  an integer number makes the statement raise.
\<close>

fun sql_int :: "jsval \<Rightarrow> pg_error + int" where
  "sql_int (JNum x) = (if of_int \<lfloor>x\<rfloor> = x then Inr \<lfloor>x\<rfloor> else Inl InvalidValue)"
| "sql_int JUndefined = Inl NotNullViolation"
| "sql_int JNull = Inl NotNullViolation"
| "sql_int _ = Inl InvalidValue"

text \<open>\<^verbatim>\<open>SELECT account_id FROM account WHERE username = $1 OR email = $2\<close>\<close>

definition select_by_username_or_email :: "db \<Rightarrow> string option \<Rightarrow> string option \<Rightarrow> int list" where
  "select_by_username_or_email d uname mail =
     map account_id
       (filter (\<lambda>a. Some (username a) = uname \<or> Some (email a) = mail) (accounts d))"

text \<open>\<^verbatim>\<open>SELECT account_id FROM account WHERE account_id = $1\<close>\<close>

definition select_account_id :: "db \<Rightarrow> int \<Rightarrow> int list" where
  "select_account_id d uid = map account_id (filter (\<lambda>a. account_id a = uid) (accounts d))"

text \<open>\<^verbatim>\<open>phone || null\<close>: an absent or empty phone is stored as null.\<close>

definition phone_or_null :: "string option \<Rightarrow> string option" where
  "phone_or_null p = (case p of None \<Rightarrow> None | Some s \<Rightarrow> if s = [] then None else Some s)"

text \<open>
  \<^verbatim>\<open>INSERT INTO account (...) VALUES ($1, ..., $6, 'active', false, false) RETURNING ...\<close>.
  The new row and the store with the row added, or the error the store raises.
\<close>

definition insert_account ::
  "nat \<Rightarrow> string option \<Rightarrow> string option \<Rightarrow> string option \<Rightarrow> string option \<Rightarrow>
   string option \<Rightarrow> jsval \<Rightarrow> db \<Rightarrow> pg_error + (db \<times> account)" where
  "insert_account t fname lname uname mail ph r d =
     (case (fname, lname, uname, mail) of
        (Some fname', Some lname', Some uname', Some mail') \<Rightarrow>
          (case sql_int r of
             Inl err \<Rightarrow> Inl err
           | Inr r' \<Rightarrow>
               if \<exists>a \<in> set (accounts d).
                    username a = uname' \<or> email a = mail' \<or> (ph \<noteq> None \<and> phone a = ph)
               then Inl UniqueViolation
               else
                 (let newAccount =
                    \<lparr>account_id = fresh_account_id (accounts d), firstname = fname',
                     lastname = lname', username = uname', email = mail',
                     email_verified = False, phone = ph, phone_verified = False,
                     account_role = r', account_status = ''active'', created_at = t,
                     updated_at = t\<rparr>
                  in Inr (d\<lparr>accounts := accounts d @ [newAccount]\<rparr>, newAccount)))
      | _ \<Rightarrow> Inl NotNullViolation)"

text \<open>\<^verbatim>\<open>INSERT INTO account_credential (account_id, salted_hash, salt) VALUES ($1, $2, $3)\<close>\<close>

definition insert_credential :: "int \<Rightarrow> string \<Rightarrow> string \<Rightarrow> db \<Rightarrow> db" where
  "insert_credential uid h s d =
     d\<lparr>credentials := credentials d @ [\<lparr>cred_account_id = uid, salted_hash = h, salt = s\<rparr>]\<rparr>"

text \<open>\<^verbatim>\<open>UPDATE account_credential SET salted_hash = $1, salt = $2 WHERE account_id = $3\<close>\<close>

definition update_credential :: "string \<Rightarrow> string \<Rightarrow> int \<Rightarrow> db \<Rightarrow> db" where
  "update_credential h s uid d =
     d\<lparr>credentials :=
         map (\<lambda>c. if cred_account_id c = uid then c\<lparr>salted_hash := h, salt := s\<rparr> else c)
           (credentials d)\<rparr>"

text \<open>The uniqueness check of a row whose unique columns change from \<open>old\<close> to \<open>new\<close>.\<close>

definition unique_violation :: "account list \<Rightarrow> account \<Rightarrow> account \<Rightarrow> bool" where
  "unique_violation accs old new =
     ((username new \<noteq> username old \<and> (\<exists>b \<in> set accs. username b = username new)) \<or>
      (email new \<noteq> email old \<and> (\<exists>b \<in> set accs. email b = email new)) \<or>
      (phone new \<noteq> phone old \<and> phone new \<noteq> None \<and> (\<exists>b \<in> set accs. phone b = phone new)))"

text \<open>
  \<^verbatim>\<open>UPDATE account SET ... WHERE account_id = $n RETURNING ...\<close>, with the assignments
  given as a function on rows. Returns the new store and the rows of \<^verbatim>\<open>RETURNING\<close>.
\<close>

definition update_account :: "(account \<Rightarrow> account) \<Rightarrow> int \<Rightarrow> db \<Rightarrow> pg_error + (db \<times> account list)" where
  "update_account f uid d =
     (if \<exists>a \<in> set (accounts d). account_id a = uid \<and> unique_violation (accounts d) a (f a)
      then Inl UniqueViolation
      else Inr (d\<lparr>accounts := map (\<lambda>a. if account_id a = uid then f a else a) (accounts d)\<rparr>,
                map f (filter (\<lambda>a. account_id a = uid) (accounts d))))"

subsection \<open>Transactions on a pooled client\<close>

text \<open>
  A client obtained with \<^verbatim>\<open>pool.connect()\<close>: the committed store and, between
  \<^verbatim>\<open>BEGIN\<close> and \<^verbatim>\<open>COMMIT\<close>/\<^verbatim>\<open>ROLLBACK\<close>, the transaction's working copy. Statements
  of other connections are not modelled.
\<close>

record conn =
  committed :: db
  pending :: "db option"

definition connect :: "db \<Rightarrow> conn" where
  "connect d = \<lparr>committed = d, pending = None\<rparr>"

definition tx_begin :: "conn \<Rightarrow> conn" where
  "tx_begin c = c\<lparr>pending := Some (committed c)\<rparr>"

definition tx_commit :: "conn \<Rightarrow> conn" where
  "tx_commit c = (case pending c of None \<Rightarrow> c | Some w \<Rightarrow> \<lparr>committed = w, pending = None\<rparr>)"

definition tx_rollback :: "conn \<Rightarrow> conn" where
  "tx_rollback c = c\<lparr>pending := None\<rparr>"

text \<open>What a statement on the client reads, and where it writes.\<close>

definition view :: "conn \<Rightarrow> db" where
  "view c = (case pending c of None \<Rightarrow> committed c | Some w \<Rightarrow> w)"

definition put :: "conn \<Rightarrow> db \<Rightarrow> conn" where
  "put c d = (case pending c of None \<Rightarrow> c\<lparr>committed := d\<rparr> | Some _ \<Rightarrow> c\<lparr>pending := Some d\<rparr>)"

section \<open>Admin controllers\<close>

text \<open>
  A controller returns its response and the store it leaves. Only the status, the success
  flag and the message of a response are modelled, not its data payload. The
  \<^verbatim>\<open>try\<close> block of a transactional controller is a function of its own: \<open>Inl c\<close> is an
  exception thrown with the client in state \<open>c\<close>, which the \<^verbatim>\<open>catch\<close> block receives.
\<close>

definition createUser_try :: "env \<Rightarrow> conn \<Rightarrow> request \<Rightarrow> conn + (response \<times> conn)" where
  "createUser_try e c req =
     (let b = req_body req
      in if store_fault e 0 then Inl c
         else
           (let c1 = tx_begin c
            in if store_fault e 1 then Inl c1
               else if select_by_username_or_email (view c1) (body_username b) (body_email b) \<noteq> []
               then Inr (json 409 False ''Username or email already exists'', tx_rollback c1)
               else if store_fault e 2 then Inl c1
               else
                 (case insert_account (now e) (body_firstname b) (body_lastname b)
                         (body_username b) (body_email b) (phone_or_null (body_phone b))
                         (body_role b) (view c1) of
                    Inl err \<Rightarrow> Inl c1
                  | Inr (d2, newAccount) \<Rightarrow>
                      (let c2 = put c1 d2
                       in case body_password b of
                            None \<Rightarrow> Inl c2
                          | Some pw \<Rightarrow>
                              (case generateSaltedHash e pw of
                                 None \<Rightarrow> Inl c2
                               | Some (s, h) \<Rightarrow>
                                   if store_fault e 3 then Inl c2
                                   else
                                     (let c3 = put c2
                                            (insert_credential (account_id newAccount) h s (view c2))
                                      in if store_fault e 4 then Inl c3
                                         else Inr (json 201 True ''User created successfully'',
                                                   tx_commit c3)))))))"

definition createUser :: "env \<Rightarrow> conn \<Rightarrow> request \<Rightarrow> response \<times> conn" where
  "createUser e c req =
     (case createUser_try e c req of
        Inr r \<Rightarrow> r
      | Inl c' \<Rightarrow> (json 500 False ''Failed to create user'', tx_rollback c'))"

text \<open>The assignments \<^verbatim>\<open>updateUser\<close> collects: one per body field that is not undefined.\<close>

definition user_updates :: "body \<Rightarrow> nat \<Rightarrow> account \<Rightarrow> account" where
  "user_updates b t a =
     a\<lparr>firstname := (case body_firstname b of None \<Rightarrow> firstname a | Some v \<Rightarrow> v),
       lastname := (case body_lastname b of None \<Rightarrow> lastname a | Some v \<Rightarrow> v),
       username := (case body_username b of None \<Rightarrow> username a | Some v \<Rightarrow> v),
       email := (case body_email b of None \<Rightarrow> email a | Some v \<Rightarrow> v),
       phone := (case body_phone b of None \<Rightarrow> phone a | Some v \<Rightarrow> Some v),
       account_status := (case body_account_status b of None \<Rightarrow> account_status a | Some v \<Rightarrow> v),
       email_verified := (case body_email_verified b of None \<Rightarrow> email_verified a | Some v \<Rightarrow> v),
       phone_verified := (case body_phone_verified b of None \<Rightarrow> phone_verified a | Some v \<Rightarrow> v),
       updated_at := t\<rparr>"

definition updateUser :: "env \<Rightarrow> db \<Rightarrow> request \<Rightarrow> response \<times> db" where
  "updateUser e d req =
     (let userId = params_id req; b = req_body req
      in if body_firstname b = None \<and> body_lastname b = None \<and> body_username b = None \<and>
            body_email b = None \<and> body_phone b = None \<and> body_account_status b = None \<and>
            body_email_verified b = None \<and> body_phone_verified b = None
         then (json 400 False ''No fields to update'', d)
         else if store_fault e 0 then (json 500 False ''Failed to update user'', d)
         else
           (case update_account (user_updates b (now e)) userId d of
              Inl err \<Rightarrow> (json 500 False ''Failed to update user'', d)
            | Inr (d', rows) \<Rightarrow>
                if rows = [] then (json 404 False ''User not found'', d')
                else (json 200 True ''User updated successfully'', d')))"

definition deleteUser :: "env \<Rightarrow> db \<Rightarrow> request \<Rightarrow> response \<times> db" where
  "deleteUser e d req =
     (let userId = params_id req
      in if store_fault e 0 then (json 500 False ''Failed to delete user'', d)
         else
           (case update_account
                   (\<lambda>a. a\<lparr>account_status := ''deleted'', updated_at := now e\<rparr>) userId d of
              Inl err \<Rightarrow> (json 500 False ''Failed to delete user'', d)
            | Inr (d', rows) \<Rightarrow>
                if rows = [] then (json 404 False ''User not found'', d')
                else (json 200 True ''User deleted successfully'', d')))"

definition resetUserPassword_try :: "env \<Rightarrow> conn \<Rightarrow> request \<Rightarrow> conn + (response \<times> conn)" where
  "resetUserPassword_try e c req =
     (let userId = params_id req; password = body_password (req_body req)
      in if store_fault e 0 then Inl c
         else
           (let c1 = tx_begin c
            in if store_fault e 1 then Inl c1
               else if select_account_id (view c1) userId = []
               then Inr (json 404 False ''User not found'', tx_rollback c1)
               else
                 (case password of
                    None \<Rightarrow> Inl c1
                  | Some pw \<Rightarrow>
                      (case generateSaltedHash e pw of
                         None \<Rightarrow> Inl c1
                       | Some (s, h) \<Rightarrow>
                           if store_fault e 2 then Inl c1
                           else
                             (let c2 = put c1 (update_credential h s userId (view c1))
                              in if store_fault e 3 then Inl c2
                                 else Inr (json 200 True ''Password reset successfully'',
                                           tx_commit c2))))))"

definition resetUserPassword :: "env \<Rightarrow> conn \<Rightarrow> request \<Rightarrow> response \<times> conn" where
  "resetUserPassword e c req =
     (case resetUserPassword_try e c req of
        Inr r \<Rightarrow> r
      | Inl c' \<Rightarrow> (json 500 False ''Failed to reset password'', tx_rollback c'))"

definition changeUserRole :: "env \<Rightarrow> db \<Rightarrow> request \<Rightarrow> response \<times> db" where
  "changeUserRole e d req =
     (let userId = params_id req; role = body_role (req_body req)
      in if store_fault e 0 then (json 500 False ''Failed to change role'', d)
         else
           (case sql_int role of
              Inl err \<Rightarrow> (json 500 False ''Failed to change role'', d)
            | Inr r \<Rightarrow>
                (case update_account (\<lambda>a. a\<lparr>account_role := r, updated_at := now e\<rparr>) userId d of
                   Inl err \<Rightarrow> (json 500 False ''Failed to change role'', d)
                 | Inr (d', rows) \<Rightarrow>
                     if rows = [] then (json 404 False ''User not found'', d')
                     else (json 200 True ''Role updated successfully'', d'))))"

section \<open>Admin routes that modify an existing account\<close>

text \<open>
  \<^verbatim>\<open>PUT /users/:id\<close>, \<^verbatim>\<open>DELETE /users/:id\<close>, \<^verbatim>\<open>PUT /users/:id/password\<close> and
  \<^verbatim>\<open>PUT /users/:id/role\<close>. Each runs \<^verbatim>\<open>requireAdminForUserModification\<close> and then
  its controller; the password route runs \<^verbatim>\<open>requireRole(ROLES.ADMIN)\<close> first. The
  express-validator chains in front of the pipeline only check the shape of the request
  and are not modelled. The pipeline is a parameter because the sources hold two versions
  of it.
\<close>

datatype admin_op = PutUser | DeleteUser | PutUserPassword | PutUserRole

definition route_guards :: "admin_op \<Rightarrow> middleware list \<Rightarrow> middleware list" where
  "route_guards op pipeline =
     (case op of PutUserPassword \<Rightarrow> requireRole ROLES_ADMIN # pipeline | _ \<Rightarrow> pipeline)"

definition controller :: "admin_op \<Rightarrow> env \<Rightarrow> db \<Rightarrow> request \<Rightarrow> response \<times> db" where
  "controller op e d req =
     (case op of
        PutUser \<Rightarrow> updateUser e d req
      | DeleteUser \<Rightarrow> deleteUser e d req
      | PutUserPassword \<Rightarrow>
          (case resetUserPassword e (connect d) req of (r, c) \<Rightarrow> (r, committed c))
      | PutUserRole \<Rightarrow> changeUserRole e d req)"

definition adminRoutes ::
  "(env \<Rightarrow> db \<Rightarrow> middleware list) \<Rightarrow> admin_op \<Rightarrow> env \<Rightarrow> db \<Rightarrow> request \<Rightarrow> response \<times> db" where
  "adminRoutes pipeline op e d req =
     (case run_chain (route_guards op (pipeline e d)) req of
        Respond r \<Rightarrow> (r, d)
      | Next req' \<Rightarrow> controller op e d req')"

section \<open>Example data\<close>

text \<open>A small store and a few requests, used to run the definitions on concrete inputs.\<close>

definition mk_account :: "int \<Rightarrow> string \<Rightarrow> string \<Rightarrow> int \<Rightarrow> account" where
  "mk_account uid uname mail r =
     \<lparr>account_id = uid, firstname = ''First'', lastname = ''Last'', username = uname,
      email = mail, email_verified = True, phone = None, phone_verified = False,
      account_role = r, account_status = ''active'', created_at = 10, updated_at = 10\<rparr>"

definition mk_credential :: "int \<Rightarrow> credential" where
  "mk_credential uid = \<lparr>cred_account_id = uid, salted_hash = ''old-hash'', salt = ''old-salt''\<rparr>"

text \<open>An owner (role 5), two admins (role 3) and a moderator (role 2).\<close>

definition ex_db :: db where
  "ex_db =
     \<lparr>accounts =
        [mk_account 1 ''owner'' ''owner@example.org'' 5,
         mk_account 2 ''admin'' ''admin@example.org'' 3,
         mk_account 3 ''peer'' ''peer@example.org'' 3,
         mk_account 4 ''mod'' ''mod@example.org'' 2],
      credentials = [mk_credential 1, mk_credential 2, mk_credential 3, mk_credential 4]\<rparr>"

text \<open>An environment in which nothing fails, and one whose store raises on statement \<open>k\<close>.\<close>

definition ex_env :: env where
  "ex_env =
     \<lparr>now = 20, lookup_fault = False, store_fault = (\<lambda>k. False),
      generateSaltedHash = (\<lambda>pw. Some (''new-salt'', ''new-hash''))\<rparr>"

definition ex_env_fault :: "nat \<Rightarrow> env" where
  "ex_env_fault k = ex_env\<lparr>store_fault := (\<lambda>n. n = k)\<rparr>"

definition empty_body :: body where
  "empty_body =
     \<lparr>body_role = JUndefined, body_account_role = JUndefined, body_firstname = None,
      body_lastname = None, body_username = None, body_email = None, body_password = None,
      body_phone = None, body_account_status = None, body_email_verified = None,
      body_phone_verified = None\<rparr>"

text \<open>A request by the account \<open>actor\<close>, whose token carries \<open>actor_role\<close>, on \<open>target\<close>.\<close>

definition mk_request :: "int \<Rightarrow> int \<Rightarrow> int \<Rightarrow> body \<Rightarrow> request" where
  "mk_request actor actor_role target b =
     \<lparr>claims = Some \<lparr>claim_id = actor, claim_role = actor_role\<rparr>, params_id = target,
      req_body = b, req_targetUserRole = None\<rparr>"

definition create_body :: "string \<Rightarrow> string \<Rightarrow> body" where
  "create_body uname mail =
     empty_body\<lparr>body_role := JNum 1, body_firstname := Some ''New'',
       body_lastname := Some ''User'', body_username := Some uname, body_email := Some mail,
       body_password := Some ''correct horse''\<rparr>"

section \<open>Basic facts\<close>

lemma status_json: "status (json st ok msg) = st"
  by (simp add: json_def)

lemma update_account_absent:
  assumes "select_account_role d uid = []"
  shows "update_account f uid d = Inr (d, [])"
proof -
  from assms have none: "\<forall>a \<in> set (accounts d). account_id a \<noteq> uid"
    by (auto simp: select_account_role_def filter_empty_conv)
  then have "map (\<lambda>a. if account_id a = uid then f a else a) (accounts d) = accounts d"
    by (induction "accounts d") (auto simp: map_idI)
  with none show ?thesis
    by (simp add: update_account_def filter_empty_conv)
qed

section \<open>The assignable-role check\<close>

text \<open>
  Claim C3. For an authenticated actor and a target role \<open>r2\<close> in 1..5 taken from the
  request body (from \<^verbatim>\<open>role\<close>, or from \<^verbatim>\<open>account_role\<close> when \<^verbatim>\<open>role\<close> is absent or
  falsy), \<^verbatim>\<open>canManageRole\<close> calls \<^verbatim>\<open>next()\<close> exactly when \<open>r2\<close> is at most the actor's
  role, and answers 403 when \<open>r2\<close> is greater. The actor's role needs no bound.
\<close>

theorem canManageRole_allows_iff_le:
  assumes "claims req = Some c"
      and "1 \<le> r2" and "r2 \<le> 5"
      and "body_role (req_body req) = JNum (of_int r2) \<or>
           (\<not> truthy (body_role (req_body req)) \<and>
            body_account_role (req_body req) = JNum (of_int r2))"
  shows "(canManageRole req = Next req \<longleftrightarrow> r2 \<le> claim_role c) \<and>
         (claim_role c < r2 \<longrightarrow>
            canManageRole req =
              Respond (json 403 False ''Cannot assign role higher than your own''))"
  using assms by (auto simp: canManageRole_def js_or_def Let_def split: if_splits)

theorem canManageRole_allows_iff_le_witness:
  "canManageRole (mk_request 2 3 4 (empty_body\<lparr>body_role := JNum 3\<rparr>)) =
     Next (mk_request 2 3 4 (empty_body\<lparr>body_role := JNum 3\<rparr>)) \<and>
   canManageRole (mk_request 2 3 4 (empty_body\<lparr>body_role := JNum 4\<rparr>)) =
     Respond (json 403 False ''Cannot assign role higher than your own'')"
  using canManageRole_allows_iff_le
          [of "mk_request 2 3 4 (empty_body\<lparr>body_role := JNum 3\<rparr>)"
              "\<lparr>claim_id = 2, claim_role = 3\<rparr>" 3]
        canManageRole_allows_iff_le
          [of "mk_request 2 3 4 (empty_body\<lparr>body_role := JNum 4\<rparr>)"
              "\<lparr>claim_id = 2, claim_role = 3\<rparr>" 4]
  by (simp add: mk_request_def empty_body_def)

text \<open>
  A truthy \<^verbatim>\<open>role\<close> that is not an integer in 1..5 is answered with 400, whatever the
  actor's role.
\<close>

lemma canManageRole_rejects_truthy_invalid:
  assumes "claims req = Some c"
      and "truthy (body_role (req_body req))"
      and "\<not> (\<exists>n. 1 \<le> n \<and> n \<le> 5 \<and> body_role (req_body req) = JNum (of_int n))"
  shows "canManageRole req =
           Respond (json 400 False ''Invalid role value. Role must be an integer between 1 and 5'')"
proof (cases "body_role (req_body req)")
  case (JNum x)
  show ?thesis
  proof (cases "of_int \<lfloor>x\<rfloor> = x")
    case True
    with assms(3) JNum have "\<not> (1 \<le> \<lfloor>x\<rfloor> \<and> \<lfloor>x\<rfloor> \<le> 5)" by metis
    with True have "x < 1 \<or> x > 5"
      by (metis of_int_1 of_int_le_iff of_int_numeral not_le)
    with JNum assms(1,2) show ?thesis
      by (auto simp: canManageRole_def js_or_def)
  next
    case False
    with JNum assms(1,2) show ?thesis
      by (auto simp: canManageRole_def js_or_def)
  qed
qed (use assms in \<open>auto simp: canManageRole_def js_or_def\<close>)

text \<open>
  Claim C5. The claim asks for a 400 on every present role outside 1..5, the value 0
  included. With the body \<^verbatim>\<open>{"role": 0}\<close> and a moderator's token, \<^verbatim>\<open>0 || undefined\<close> is
  \<^verbatim>\<open>undefined\<close>, so \<^verbatim>\<open>canManageRole\<close> takes the ``no role'' exit and calls \<^verbatim>\<open>next()\<close>;
  the range test \<^verbatim>\<open>targetRole < 1\<close> is never reached. The same body with \<^verbatim>\<open>-1\<close> gets
  the 400.
\<close>

theorem canManageRole_role_zero_passes:
  "canManageRole (mk_request 4 2 3 (empty_body\<lparr>body_role := JNum 0\<rparr>)) =
     Next (mk_request 4 2 3 (empty_body\<lparr>body_role := JNum 0\<rparr>)) \<and>
   canManageRole (mk_request 4 2 3 (empty_body\<lparr>body_role := JNum (- 1)\<rparr>)) =
     Respond (json 400 False ''Invalid role value. Role must be an integer between 1 and 5'')"
  by (simp add: canManageRole_def js_or_def mk_request_def empty_body_def)

text \<open>So the answer to a present role 0 is not the 400 that a present role -1 gets.\<close>

theorem canManageRole_role_zero_passes_witness:
  "canManageRole (mk_request 4 2 3 (empty_body\<lparr>body_role := JNum 0\<rparr>)) \<noteq>
     Respond (json 400 False ''Invalid role value. Role must be an integer between 1 and 5'') \<and>
   canManageRole (mk_request 4 2 3 (empty_body\<lparr>body_role := JNum (- 1)\<rparr>)) =
     Respond (json 400 False ''Invalid role value. Role must be an integer between 1 and 5'')"
  using canManageRole_role_zero_passes by simp

text \<open>
  Claim C9. For an authenticated request whose \<^verbatim>\<open>role\<close> is absent or falsy (0, the empty
  string, \<^verbatim>\<open>null\<close>, \<^verbatim>\<open>false\<close>) and whose \<^verbatim>\<open>account_role\<close> is absent,
  \<^verbatim>\<open>canManageRole\<close> calls \<^verbatim>\<open>next()\<close> whatever the actor's role: neither the range test nor
  the hierarchy test runs.
\<close>

theorem canManageRole_skips_without_role:
  assumes "claims req = Some c"
      and "\<not> truthy (body_role (req_body req))"
      and "body_account_role (req_body req) = JUndefined"
  shows "canManageRole req = Next req"
  using assms by (simp add: canManageRole_def js_or_def)

theorem canManageRole_skips_without_role_witness:
  "canManageRole (mk_request 9 1 3 empty_body) = Next (mk_request 9 1 3 empty_body) \<and>
   canManageRole (mk_request 9 1 3 (empty_body\<lparr>body_role := JStr []\<rparr>)) =
     Next (mk_request 9 1 3 (empty_body\<lparr>body_role := JStr []\<rparr>)) \<and>
   canManageRole (mk_request 9 1 3 (empty_body\<lparr>body_role := JNull\<rparr>)) =
     Next (mk_request 9 1 3 (empty_body\<lparr>body_role := JNull\<rparr>))"
  using canManageRole_skips_without_role
          [of "mk_request 9 1 3 empty_body" "\<lparr>claim_id = 9, claim_role = 1\<rparr>"]
        canManageRole_skips_without_role
          [of "mk_request 9 1 3 (empty_body\<lparr>body_role := JStr []\<rparr>)"
              "\<lparr>claim_id = 9, claim_role = 1\<rparr>"]
        canManageRole_skips_without_role
          [of "mk_request 9 1 3 (empty_body\<lparr>body_role := JNull\<rparr>)"
              "\<lparr>claim_id = 9, claim_role = 1\<rparr>"]
  by (simp add: mk_request_def empty_body_def)

section \<open>The target-ceiling check and the composed pipeline\<close>

text \<open>
  The pipeline of \<^verbatim>\<open>unnamed/part_001\<close> runs its four checks in the order of the array
  and stops at the first one that answers.
\<close>

lemma pipeline_part_001_order:
  "run_chain (requireAdminForUserModification_part_001 e d) req =
     (case requireRole ROLES_MODERATOR req of
        Respond r \<Rightarrow> Respond r
      | Next req1 \<Rightarrow>
          (case preventSelfModification req1 of
             Respond r \<Rightarrow> Respond r
           | Next req2 \<Rightarrow>
               (case canModifyTargetUser e d req2 of
                  Respond r \<Rightarrow> Respond r
                | Next req3 \<Rightarrow> canManageRole req3)))"
  by (simp add: requireAdminForUserModification_part_001_def split: mw_result.splits)

lemma pipeline_part_001_denies_higher_target:
  assumes "claims req = Some c" and "\<not> lookup_fault e"
      and "select_account_role d (params_id req) = r # rs" and "r > claim_role c"
  shows "\<exists>resp. run_chain (route_guards op (requireAdminForUserModification_part_001 e d)) req =
                  Respond resp \<and> status resp = 403"
  using assms
  by (cases op)
     (auto simp: route_guards_def requireAdminForUserModification_part_001_def requireRole_def
        preventSelfModification_def canModifyTargetUser_def Let_def status_json)

text \<open>
  Claim C1. Take any of the four admin routes that modify an existing account, guarded by
  the pipeline that contains \<^verbatim>\<open>canModifyTargetUser\<close>, an authenticated actor, and a target
  whose stored role the lookup returns as \<open>r\<close>. If \<open>r\<close> is greater than the actor's
  claimed role the route answers 403 and the store is left as it was; if \<open>r\<close> is at most
  the actor's role, \<^verbatim>\<open>canModifyTargetUser\<close> calls \<^verbatim>\<open>next()\<close>, having noted \<open>r\<close> on the
  request.
\<close>

theorem target_ceiling_enforced:
  assumes "claims req = Some c" and "\<not> lookup_fault e"
      and "select_account_role d (params_id req) = r # rs"
  shows "(r > claim_role c \<longrightarrow>
            status (fst (adminRoutes requireAdminForUserModification_part_001 op e d req)) = 403 \<and>
            snd (adminRoutes requireAdminForUserModification_part_001 op e d req) = d) \<and>
         (r \<le> claim_role c \<longrightarrow>
            canModifyTargetUser e d req = Next (req\<lparr>req_targetUserRole := Some r\<rparr>))"
proof (intro conjI impI)
  assume "r > claim_role c"
  from pipeline_part_001_denies_higher_target [OF assms this, of op]
  obtain resp where
    "run_chain (route_guards op (requireAdminForUserModification_part_001 e d)) req = Respond resp"
    and "status resp = 403" by blast
  then show "status (fst (adminRoutes requireAdminForUserModification_part_001 op e d req)) = 403"
    and "snd (adminRoutes requireAdminForUserModification_part_001 op e d req) = d"
    by (simp_all add: adminRoutes_def)
next
  assume "r \<le> claim_role c"
  with assms show "canModifyTargetUser e d req = Next (req\<lparr>req_targetUserRole := Some r\<rparr>)"
    by (simp add: canModifyTargetUser_def)
qed

theorem target_ceiling_enforced_witness:
  "adminRoutes requireAdminForUserModification_part_001 DeleteUser ex_env ex_db
     (mk_request 2 3 1 empty_body) =
     (json 403 False ''Cannot modify user with higher role than yours'', ex_db) \<and>
   canModifyTargetUser ex_env ex_db (mk_request 2 3 4 empty_body) =
     Next ((mk_request 2 3 4 empty_body)\<lparr>req_targetUserRole := Some 2\<rparr>)"
  using target_ceiling_enforced
          [of "mk_request 2 3 1 empty_body" "\<lparr>claim_id = 2, claim_role = 3\<rparr>" ex_env ex_db
              5 "[]" DeleteUser]
        target_ceiling_enforced
          [of "mk_request 2 3 4 empty_body" "\<lparr>claim_id = 2, claim_role = 3\<rparr>" ex_env ex_db
              2 "[]" DeleteUser]
  by (simp add: adminRoutes_def route_guards_def requireAdminForUserModification_part_001_def
      requireRole_def preventSelfModification_def canModifyTargetUser_def
      select_account_role_def ROLES_MODERATOR_def mk_request_def empty_body_def ex_env_def
      ex_db_def mk_account_def)

text \<open>
  Claim C4, as the code has it. For an authenticated actor and a target whose stored role
  the lookup returns as \<open>r\<close>, \<^verbatim>\<open>canModifyTargetUser\<close> answers 403 exactly when \<open>r\<close> is
  strictly greater than the actor's claimed role; a target whose role equals the actor's
  is let through.
\<close>

theorem canModifyTargetUser_denies_iff_greater:
  assumes "claims req = Some c" and "\<not> lookup_fault e"
      and "select_account_role d (params_id req) = r # rs"
  shows "(canModifyTargetUser e d req =
            Respond (json 403 False ''Cannot modify user with higher role than yours'')
          \<longleftrightarrow> r > claim_role c) \<and>
         (r = claim_role c \<longrightarrow>
            canModifyTargetUser e d req = Next (req\<lparr>req_targetUserRole := Some r\<rparr>))"
  using assms by (simp add: canModifyTargetUser_def)

theorem canModifyTargetUser_denies_iff_greater_witness:
  "canModifyTargetUser ex_env ex_db (mk_request 2 3 3 empty_body) =
     Next ((mk_request 2 3 3 empty_body)\<lparr>req_targetUserRole := Some 3\<rparr>) \<and>
   canModifyTargetUser ex_env ex_db (mk_request 2 3 1 empty_body) =
     Respond (json 403 False ''Cannot modify user with higher role than yours'')"
  using canModifyTargetUser_denies_iff_greater
          [of "mk_request 2 3 3 empty_body" "\<lparr>claim_id = 2, claim_role = 3\<rparr>" ex_env ex_db
              3 "[]"]
        canModifyTargetUser_denies_iff_greater
          [of "mk_request 2 3 1 empty_body" "\<lparr>claim_id = 2, claim_role = 3\<rparr>" ex_env ex_db
              5 "[]"]
  by (simp add: select_account_role_def mk_request_def empty_body_def ex_env_def ex_db_def
      mk_account_def)

text \<open>
  An admin (role 3) deletes another admin (stored role 3) through the pipeline that
  contains the ceiling check: the roles are equal and the request is served.
\<close>

theorem equal_role_target_not_denied:
  "select_account_role ex_db 3 = [3] \<and>
   fst (adminRoutes requireAdminForUserModification_part_001 DeleteUser ex_env ex_db
          (mk_request 2 3 3 empty_body)) = json 200 True ''User deleted successfully''"
  by (simp add: adminRoutes_def route_guards_def controller_def deleteUser_def
      update_account_def unique_violation_def requireAdminForUserModification_part_001_def
      requireRole_def preventSelfModification_def canManageRole_def canModifyTargetUser_def
      select_account_role_def js_or_def ROLES_MODERATOR_def mk_request_def empty_body_def
      ex_env_def ex_db_def mk_account_def)

text \<open>
  Claim C2. The claim wants the target-ceiling step in the pipeline of every admin
  modification. The pipeline exported by \<^verbatim>\<open>src/core/middleware/adminAuth.ts\<close> has no such
  step: a moderator (role 2) sends \<^verbatim>\<open>DELETE /admin/users/1\<close> against the owner (stored
  role 5), the three checks all call \<^verbatim>\<open>next()\<close>, and the owner is marked deleted. The
  four-step pipeline of \<^verbatim>\<open>unnamed/part_001\<close> answers the same request with 403.
\<close>

theorem adminAuth_ts_pipeline_skips_target_ceiling:
  "run_chain requireAdminForUserModification_adminAuth_ts (mk_request 4 2 1 empty_body) =
     Next (mk_request 4 2 1 empty_body) \<and>
   fst (adminRoutes (\<lambda>e d. requireAdminForUserModification_adminAuth_ts) DeleteUser ex_env ex_db
          (mk_request 4 2 1 empty_body)) = json 200 True ''User deleted successfully'' \<and>
   run_chain (requireAdminForUserModification_part_001 ex_env ex_db)
       (mk_request 4 2 1 empty_body) =
     Respond (json 403 False ''Cannot modify user with higher role than yours'')"
  by (simp add: requireAdminForUserModification_adminAuth_ts_def
      requireAdminForUserModification_part_001_def adminRoutes_def route_guards_def
      controller_def deleteUser_def update_account_def unique_violation_def requireRole_def
      preventSelfModification_def canManageRole_def canModifyTargetUser_def
      select_account_role_def js_or_def ROLES_MODERATOR_def mk_request_def empty_body_def
      ex_env_def ex_db_def mk_account_def)

text \<open>The two versions of the pipeline disagree on this request.\<close>

theorem adminAuth_ts_pipeline_skips_target_ceiling_witness:
  "run_chain requireAdminForUserModification_adminAuth_ts (mk_request 4 2 1 empty_body) \<noteq>
     run_chain (requireAdminForUserModification_part_001 ex_env ex_db)
       (mk_request 4 2 1 empty_body)"
  using adminAuth_ts_pipeline_skips_target_ceiling by simp

text \<open>
  Claim C10, as the code has it. For an authenticated request on a target id that no stored
  account has, \<^verbatim>\<open>canModifyTargetUser\<close> calls \<^verbatim>\<open>next()\<close> and leaves the request as it
  was, so the four-step pipeline answers exactly what the minimum-role, self-modification
  and body-role checks answer (which can still be a 403). When the pipeline passes, the
  role-change controller answers 404 and the store is unchanged, provided the store does
  not raise and the body role is an integer.
\<close>

theorem absent_target_passes_ceiling:
  assumes "claims req = Some c" and "\<not> lookup_fault e"
      and "select_account_role d (params_id req) = []"
  shows "canModifyTargetUser e d req = Next req \<and>
         run_chain (requireAdminForUserModification_part_001 e d) req =
           run_chain requireAdminForUserModification_adminAuth_ts req \<and>
         (run_chain (requireAdminForUserModification_part_001 e d) req = Next req' \<and>
          \<not> store_fault e 0 \<and> sql_int (body_role (req_body req)) = Inr n \<longrightarrow>
            adminRoutes requireAdminForUserModification_part_001 PutUserRole e d req =
              (json 404 False ''User not found'', d))"
proof (intro conjI impI)
  show ceil: "canModifyTargetUser e d req = Next req"
    using assms by (simp add: canModifyTargetUser_def)
  show same: "run_chain (requireAdminForUserModification_part_001 e d) req =
           run_chain requireAdminForUserModification_adminAuth_ts req"
    using assms ceil
    by (simp add: requireAdminForUserModification_part_001_def
        requireAdminForUserModification_adminAuth_ts_def requireRole_def
        preventSelfModification_def)
  assume pass: "run_chain (requireAdminForUserModification_part_001 e d) req = Next req' \<and>
                \<not> store_fault e 0 \<and> sql_int (body_role (req_body req)) = Inr n"
  then have "run_chain requireAdminForUserModification_adminAuth_ts req = Next req'"
    using same by simp
  then have "req' = req"
    by (auto simp: requireAdminForUserModification_adminAuth_ts_def requireRole_def
        preventSelfModification_def canManageRole_def Let_def
        split: option.splits if_splits jsval.splits)
  with pass assms(3)
  show "adminRoutes requireAdminForUserModification_part_001 PutUserRole e d req =
          (json 404 False ''User not found'', d)"
    by (auto simp: adminRoutes_def route_guards_def controller_def changeUserRole_def
        update_account_absent)
qed

theorem absent_target_passes_ceiling_witness:
  "canModifyTargetUser ex_env ex_db (mk_request 2 3 77 (empty_body\<lparr>body_role := JNum 1\<rparr>)) =
     Next (mk_request 2 3 77 (empty_body\<lparr>body_role := JNum 1\<rparr>)) \<and>
   adminRoutes requireAdminForUserModification_part_001 PutUserRole ex_env ex_db
       (mk_request 2 3 77 (empty_body\<lparr>body_role := JNum 1\<rparr>)) =
     (json 404 False ''User not found'', ex_db)"
  using absent_target_passes_ceiling
          [of "mk_request 2 3 77 (empty_body\<lparr>body_role := JNum 1\<rparr>)"
              "\<lparr>claim_id = 2, claim_role = 3\<rparr>" ex_env ex_db
              "mk_request 2 3 77 (empty_body\<lparr>body_role := JNum 1\<rparr>)" 1]
  by (simp add: requireAdminForUserModification_part_001_def
      requireAdminForUserModification_adminAuth_ts_def requireRole_def
      preventSelfModification_def canManageRole_def canModifyTargetUser_def
      select_account_role_def js_or_def ROLES_MODERATOR_def mk_request_def empty_body_def
      ex_env_def ex_db_def mk_account_def)

text \<open>
  A request by a plain user (role 1) on the absent target 77: the pipeline answers 403
  from its minimum-role check, although no account 77 exists.
\<close>

theorem pipeline_forbids_absent_target:
  "select_account_role ex_db 77 = [] \<and>
   run_chain (requireAdminForUserModification_part_001 ex_env ex_db)
       (mk_request 9 1 77 empty_body) =
     Respond (json 403 False ''Insufficient permissions'')"
  by (simp add: requireAdminForUserModification_part_001_def requireRole_def
      select_account_role_def ROLES_MODERATOR_def mk_request_def empty_body_def ex_db_def
      mk_account_def)

section \<open>Transactional controllers\<close>

lemma insert_account_shape:
  "insert_account t fname lname uname mail ph r d = Inr (d2, acc) \<Longrightarrow>
   d2 = d\<lparr>accounts := accounts d @ [acc]\<rparr>"
  by (auto simp: insert_account_def Let_def split: option.splits sum.splits if_splits)

text \<open>Whatever the \<^verbatim>\<open>try\<close> block throws, nothing has been committed at that point.\<close>

lemma createUser_try_thrown:
  "createUser_try e (connect d) req = Inl c' \<Longrightarrow> committed c' = d"
  by (auto simp: createUser_try_def connect_def tx_begin_def put_def view_def Let_def
      split: if_splits sum.splits option.splits prod.splits)

lemma createUser_try_returned:
  "createUser_try e (connect d) req = Inr (r, c') \<Longrightarrow>
   pending c' = None \<and>
   (status r = 201 \<longrightarrow>
      (\<exists>acc pw s h.
         body_password (req_body req) = Some pw \<and> generateSaltedHash e pw = Some (s, h) \<and>
         accounts (committed c') = accounts d @ [acc] \<and>
         credentials (committed c') = credentials d @
           [\<lparr>cred_account_id = account_id acc, salted_hash = h, salt = s\<rparr>])) \<and>
   (status r \<noteq> 201 \<longrightarrow> committed c' = d)"
  by (auto simp: createUser_try_def connect_def tx_begin_def tx_commit_def tx_rollback_def
      put_def view_def insert_credential_def Let_def status_json
      dest!: insert_account_shape
      split: if_splits sum.splits option.splits prod.splits)

lemma createUser_atomic:
  "createUser e (connect d) req = (r, c') \<Longrightarrow>
   pending c' = None \<and>
   (status r = 201 \<longrightarrow>
      (\<exists>acc pw s h.
         body_password (req_body req) = Some pw \<and> generateSaltedHash e pw = Some (s, h) \<and>
         accounts (committed c') = accounts d @ [acc] \<and>
         credentials (committed c') = credentials d @
           [\<lparr>cred_account_id = account_id acc, salted_hash = h, salt = s\<rparr>])) \<and>
   (status r \<noteq> 201 \<longrightarrow> committed c' = d)"
proof (cases "createUser_try e (connect d) req")
  case (Inl c0)
  assume "createUser e (connect d) req = (r, c')"
  with Inl have "r = json 500 False ''Failed to create user''" and "c' = tx_rollback c0"
    by (simp_all add: createUser_def)
  with createUser_try_thrown [OF Inl] show ?thesis
    by (simp add: tx_rollback_def status_json)
next
  case (Inr p)
  assume "createUser e (connect d) req = (r, c')"
  with Inr have "createUser_try e (connect d) req = Inr (r, c')"
    by (simp add: createUser_def)
  then show ?thesis by (rule createUser_try_returned)
qed

lemma resetUserPassword_try_thrown:
  "resetUserPassword_try e (connect d) req = Inl c' \<Longrightarrow> committed c' = d"
  by (auto simp: resetUserPassword_try_def connect_def tx_begin_def put_def view_def Let_def
      split: if_splits sum.splits option.splits prod.splits)

lemma resetUserPassword_try_returned:
  "resetUserPassword_try e (connect d) req = Inr (r, c') \<Longrightarrow>
   pending c' = None \<and>
   (status r = 200 \<longrightarrow>
      (\<exists>pw s h.
         body_password (req_body req) = Some pw \<and> generateSaltedHash e pw = Some (s, h) \<and>
         committed c' = update_credential h s (params_id req) d)) \<and>
   (status r \<noteq> 200 \<longrightarrow> committed c' = d)"
  by (auto simp: resetUserPassword_try_def connect_def tx_begin_def tx_commit_def
      tx_rollback_def put_def view_def Let_def status_json
      split: if_splits sum.splits option.splits prod.splits)

lemma resetUserPassword_atomic:
  "resetUserPassword e (connect d) req = (r, c') \<Longrightarrow>
   pending c' = None \<and>
   (status r = 200 \<longrightarrow>
      (\<exists>pw s h.
         body_password (req_body req) = Some pw \<and> generateSaltedHash e pw = Some (s, h) \<and>
         committed c' = update_credential h s (params_id req) d)) \<and>
   (status r \<noteq> 200 \<longrightarrow> committed c' = d)"
proof (cases "resetUserPassword_try e (connect d) req")
  case (Inl c0)
  assume "resetUserPassword e (connect d) req = (r, c')"
  with Inl have "r = json 500 False ''Failed to reset password''" and "c' = tx_rollback c0"
    by (simp_all add: resetUserPassword_def)
  with resetUserPassword_try_thrown [OF Inl] show ?thesis
    by (simp add: tx_rollback_def status_json)
next
  case (Inr p)
  assume "resetUserPassword e (connect d) req = (r, c')"
  with Inr have "resetUserPassword_try e (connect d) req = Inr (r, c')"
    by (simp add: resetUserPassword_def)
  then show ?thesis by (rule resetUserPassword_try_returned)
qed

text \<open>
  Claim C6. \<^verbatim>\<open>createUser\<close> and \<^verbatim>\<open>resetUserPassword\<close>, each started on a fresh client,
  end with no transaction open, whichever statement raises and whatever
  \<^verbatim>\<open>generateSaltedHash\<close> does. \<^verbatim>\<open>createUser\<close> answers 201 only with both the account and
  its credential committed, and any other answer leaves the committed store as it was.
  \<^verbatim>\<open>resetUserPassword\<close> answers 200 only with the credential of the target replaced by the
  new hash and salt, and any other answer leaves the committed store as it was.
\<close>

theorem account_credential_writes_atomic:
  "(case createUser e (connect d) req of
      (r, c') \<Rightarrow>
        pending c' = None \<and>
        (status r = 201 \<longrightarrow>
           (\<exists>acc pw s h.
              body_password (req_body req) = Some pw \<and>
              generateSaltedHash e pw = Some (s, h) \<and>
              accounts (committed c') = accounts d @ [acc] \<and>
              credentials (committed c') = credentials d @
                [\<lparr>cred_account_id = account_id acc, salted_hash = h, salt = s\<rparr>])) \<and>
        (status r \<noteq> 201 \<longrightarrow> committed c' = d)) \<and>
   (case resetUserPassword e (connect d) req of
      (r, c') \<Rightarrow>
        pending c' = None \<and>
        (status r = 200 \<longrightarrow>
           (\<exists>pw s h.
              body_password (req_body req) = Some pw \<and>
              generateSaltedHash e pw = Some (s, h) \<and>
              committed c' = update_credential h s (params_id req) d)) \<and>
        (status r \<noteq> 200 \<longrightarrow> committed c' = d))"
proof
  obtain r c' where run: "createUser e (connect d) req = (r, c')" by force
  from createUser_atomic [OF run] run
  show "case createUser e (connect d) req of
      (r, c') \<Rightarrow>
        pending c' = None \<and>
        (status r = 201 \<longrightarrow>
           (\<exists>acc pw s h.
              body_password (req_body req) = Some pw \<and>
              generateSaltedHash e pw = Some (s, h) \<and>
              accounts (committed c') = accounts d @ [acc] \<and>
              credentials (committed c') = credentials d @
                [\<lparr>cred_account_id = account_id acc, salted_hash = h, salt = s\<rparr>])) \<and>
        (status r \<noteq> 201 \<longrightarrow> committed c' = d)"
    by simp
next
  obtain r c' where run: "resetUserPassword e (connect d) req = (r, c')" by force
  from resetUserPassword_atomic [OF run] run
  show "case resetUserPassword e (connect d) req of
      (r, c') \<Rightarrow>
        pending c' = None \<and>
        (status r = 200 \<longrightarrow>
           (\<exists>pw s h.
              body_password (req_body req) = Some pw \<and>
              generateSaltedHash e pw = Some (s, h) \<and>
              committed c' = update_credential h s (params_id req) d)) \<and>
        (status r \<noteq> 200 \<longrightarrow> committed c' = d)"
    by simp
qed

theorem account_credential_writes_atomic_witness:
  "createUser (ex_env_fault 3) (connect ex_db)
       (mk_request 2 3 0 (create_body ''new'' ''new@example.org'')) =
     (json 500 False ''Failed to create user'', connect ex_db) \<and>
   status (fst (createUser ex_env (connect ex_db)
       (mk_request 2 3 0 (create_body ''new'' ''new@example.org'')))) = 201 \<and>
   map account_id (accounts (committed (snd (createUser ex_env (connect ex_db)
       (mk_request 2 3 0 (create_body ''new'' ''new@example.org'')))))) = [1, 2, 3, 4, 5] \<and>
   map cred_account_id (credentials (committed (snd (createUser ex_env (connect ex_db)
       (mk_request 2 3 0 (create_body ''new'' ''new@example.org'')))))) = [1, 2, 3, 4, 5] \<and>
   resetUserPassword (ex_env_fault 3) (connect ex_db)
       (mk_request 2 3 4 (empty_body\<lparr>body_password := Some ''pw''\<rparr>)) =
     (json 500 False ''Failed to reset password'', connect ex_db) \<and>
   resetUserPassword ex_env (connect ex_db)
       (mk_request 2 3 4 (empty_body\<lparr>body_password := Some ''pw''\<rparr>)) =
     (json 200 True ''Password reset successfully'',
      connect (update_credential ''new-hash'' ''new-salt'' 4 ex_db))"
  using account_credential_writes_atomic
          [where e = "ex_env_fault 3" and d = ex_db
             and req = "mk_request 2 3 0 (create_body ''new'' ''new@example.org'')"]
        account_credential_writes_atomic
          [where e = ex_env and d = ex_db
             and req = "mk_request 2 3 0 (create_body ''new'' ''new@example.org'')"]
        account_credential_writes_atomic
          [where e = "ex_env_fault 3" and d = ex_db
             and req = "mk_request 2 3 4 (empty_body\<lparr>body_password := Some ''pw''\<rparr>)"]
        account_credential_writes_atomic
          [where e = ex_env and d = ex_db
             and req = "mk_request 2 3 4 (empty_body\<lparr>body_password := Some ''pw''\<rparr>)"]
  by (simp add: createUser_def createUser_try_def resetUserPassword_def
      resetUserPassword_try_def select_by_username_or_email_def select_account_id_def
      insert_account_def insert_credential_def update_credential_def fresh_account_id_def
      phone_or_null_def connect_def tx_begin_def tx_commit_def tx_rollback_def view_def
      put_def create_body_def mk_request_def empty_body_def ex_env_def ex_env_fault_def
      ex_db_def mk_account_def mk_credential_def status_json Let_def)

section \<open>Uniqueness violations\<close>

text \<open>
  \<^verbatim>\<open>createUser\<close> looks for the username and the email before it inserts, answers 409 when
  one of them is taken, and rolls back.
\<close>

lemma createUser_conflict:
  assumes "\<not> store_fault e 0" and "\<not> store_fault e 1"
      and "a \<in> set (accounts d)"
      and "Some (username a) = body_username (req_body req) \<or>
           Some (email a) = body_email (req_body req)"
  shows "createUser e (connect d) req =
           (json 409 False ''Username or email already exists'', connect d)"
proof -
  from assms(3,4)
  have "select_by_username_or_email d (body_username (req_body req)) (body_email (req_body req)) \<noteq> []"
    by (auto simp: select_by_username_or_email_def filter_empty_conv)
  with assms(1,2) show ?thesis
    by (simp add: createUser_def createUser_try_def connect_def tx_begin_def tx_rollback_def
        view_def)
qed

text \<open>
  \<^verbatim>\<open>updateUser\<close> has no such look-up: renaming an account to a username that another
  account holds makes the \<^verbatim>\<open>UPDATE\<close> raise, and the \<^verbatim>\<open>catch\<close> block answers 500.
\<close>

lemma updateUser_duplicate_username:
  assumes "\<not> store_fault e 0"
      and "a \<in> set (accounts d)" and "account_id a = params_id req"
      and "body_username (req_body req) = Some u" and "u \<noteq> username a"
      and "b \<in> set (accounts d)" and "username b = u"
  shows "updateUser e d req = (json 500 False ''Failed to update user'', d)"
proof -
  from assms have "unique_violation (accounts d) a (user_updates (req_body req) (now e) a)"
    by (auto simp: unique_violation_def user_updates_def)
  with assms(2,3)
  have "update_account (user_updates (req_body req) (now e)) (params_id req) d = Inl UniqueViolation"
    by (auto simp: update_account_def)
  with assms(1,4) show ?thesis
    by (simp add: updateUser_def)
qed

text \<open>
  Claim C7. The claim wants a Conflict answer, distinguishable from other failures, also
  when an update runs into a taken username. \<^verbatim>\<open>PUT /admin/users/4\<close> with the username of
  account 1 is answered with 500 ``Failed to update user'', the very response the same
  controller gives when the store is down; no write persists. \<^verbatim>\<open>createUser\<close> with the same
  username is answered with 409.
\<close>

theorem updateUser_duplicate_is_generic_failure:
  "updateUser ex_env ex_db (mk_request 2 3 4 (empty_body\<lparr>body_username := Some ''owner''\<rparr>)) =
     (json 500 False ''Failed to update user'', ex_db) \<and>
   updateUser (ex_env_fault 0) ex_db
       (mk_request 2 3 4 (empty_body\<lparr>body_username := Some ''fresh''\<rparr>)) =
     (json 500 False ''Failed to update user'', ex_db) \<and>
   fst (createUser ex_env (connect ex_db)
          (mk_request 2 3 0 (create_body ''owner'' ''new@example.org''))) =
     json 409 False ''Username or email already exists''"
  by (simp add: updateUser_def update_account_def unique_violation_def user_updates_def
      createUser_def createUser_try_def select_by_username_or_email_def connect_def
      tx_begin_def tx_rollback_def view_def create_body_def
      mk_request_def empty_body_def ex_env_def ex_env_fault_def ex_db_def mk_account_def)

text \<open>
  The answer to the duplicate username is the answer to a store failure, and its status
  is not 409.
\<close>

theorem updateUser_duplicate_is_generic_failure_witness:
  "fst (updateUser ex_env ex_db
          (mk_request 2 3 4 (empty_body\<lparr>body_username := Some ''owner''\<rparr>))) =
     fst (updateUser (ex_env_fault 0) ex_db
            (mk_request 2 3 4 (empty_body\<lparr>body_username := Some ''fresh''\<rparr>))) \<and>
   status (fst (updateUser ex_env ex_db
          (mk_request 2 3 4 (empty_body\<lparr>body_username := Some ''owner''\<rparr>)))) = 500"
  using updateUser_duplicate_is_generic_failure by (simp add: status_json)

section \<open>Soft delete\<close>

lemma deleteUser_eq:
  "deleteUser e d req =
     (if store_fault e 0 then (json 500 False ''Failed to delete user'', d)
      else
        (if filter (\<lambda>a. account_id a = params_id req) (accounts d) = []
         then json 404 False ''User not found''
         else json 200 True ''User deleted successfully'',
         d\<lparr>accounts :=
             map (\<lambda>a. if account_id a = params_id req
                       then a\<lparr>account_status := ''deleted'', updated_at := now e\<rparr> else a)
               (accounts d)\<rparr>))"
  by (simp add: deleteUser_def update_account_def unique_violation_def)

text \<open>
  Claim C8. \<^verbatim>\<open>deleteUser\<close> never removes a row. It leaves the credentials as they are,
  keeps the number and the order of the accounts, leaves every account with another id
  untouched, and changes an account with the target id in two fields only:
  \<^verbatim>\<open>account_status\<close> becomes \<^verbatim>\<open>'deleted'\<close> and \<^verbatim>\<open>updated_at\<close> the current time (with
  answer 200). When the store raises, nothing changes at all.
\<close>

theorem deleteUser_marks_only:
  "case deleteUser e d req of
     (r, d') \<Rightarrow>
       credentials d' = credentials d \<and>
       length (accounts d') = length (accounts d) \<and>
       (\<forall>i < length (accounts d).
          (account_id (accounts d ! i) \<noteq> params_id req \<longrightarrow> accounts d' ! i = accounts d ! i) \<and>
          (account_id (accounts d ! i) = params_id req \<longrightarrow>
             (if store_fault e 0 then accounts d' ! i = accounts d ! i
              else status r = 200 \<and>
                   accounts d' ! i =
                     (accounts d ! i)\<lparr>account_status := ''deleted'', updated_at := now e\<rparr>)))"
  by (auto simp: deleteUser_eq filter_empty_conv status_json)

theorem deleteUser_marks_only_witness:
  "deleteUser ex_env ex_db (mk_request 2 3 4 empty_body) =
     (json 200 True ''User deleted successfully'',
      ex_db\<lparr>accounts :=
        [mk_account 1 ''owner'' ''owner@example.org'' 5,
         mk_account 2 ''admin'' ''admin@example.org'' 3,
         mk_account 3 ''peer'' ''peer@example.org'' 3,
         (mk_account 4 ''mod'' ''mod@example.org'' 2)
           \<lparr>account_status := ''deleted'', updated_at := 20\<rparr>]\<rparr>)"
  using deleteUser_marks_only
          [where e = ex_env and d = ex_db and req = "mk_request 2 3 4 empty_body"]
  by (simp add: deleteUser_def update_account_def unique_violation_def mk_request_def
      empty_body_def ex_env_def ex_db_def mk_account_def)

end
